theory Spec2Isabelle
  imports Main
begin

section \<open>JavaScript values\<close>

text \<open>
  The builder of \<^verbatim>\<open>lib/RouterBuilder.js\<close> works on dynamically typed data: specification
  trees, controller objects, middleware functions. A value is modelled by the datatype
  below. An object is an association list of its own properties in insertion order, with
  pairwise distinct keys; a user function is opaque and identified by a number; the five
  constructors after it are the closures returned by the middleware adapters of the source
  (\<^verbatim>\<open>validateBySchema\<close>, \<^verbatim>\<open>validateByFunction\<close>, \<^verbatim>\<open>sanitizer\<close>, \<^verbatim>\<open>executor\<close>, \<^verbatim>\<open>render\<close>),
  each holding the value it was built from.

  Arrays are objects with an identity, and the builder writes to one kind of them: it
  pushes into the array \<^verbatim>\<open>opts.before\<close> of a verb node. An array written \<open>Arr xs\<close> is an array
  that no other place holds and that is not used again after the builder has seen it. An
  array that several places hold (the same hooks given as \<^verbatim>\<open>before\<close> and \<^verbatim>\<open>after\<close>, or to
  several verb nodes) is written \<open>Ref a\<close>: its elements are in the heap under the address
  \<open>a\<close>, and two occurrences of \<open>Ref a\<close> are the same array.

  Scope of the model: numbers are integers; shared arrays are followed where the builder
  writes to arrays and reads them back, that is in the hooks of verb nodes and in mounted
  middleware, and arrays at the other places of a specification are written \<open>Arr\<close>;
  inherited and built-in properties (those of \<^verbatim>\<open>Object.prototype\<close>, \<^verbatim>\<open>length\<close> of strings and
  arrays) are not properties of a value here.
\<close>

datatype jsval =
    Undefined
  | Null
  | Bool bool
  | Num int
  | Str string
  | Arr "jsval list"
  | Obj "(string \<times> jsval) list"
  | Ref nat
  | Fun nat
  | ValidateBySchema jsval
  | ValidateByFunction jsval
  | Sanitizer jsval
  | Executor jsval
  | Render jsval

text \<open>Truthiness, as tested by \<^verbatim>\<open>if (v)\<close>, \<^verbatim>\<open>!v\<close> and \<^verbatim>\<open>a || b\<close>.\<close>

fun truthy :: "jsval \<Rightarrow> bool" where
  "truthy Undefined = False"
| "truthy Null = False"
| "truthy (Bool b) = b"
| "truthy (Num n) = (n \<noteq> 0)"
| "truthy (Str s) = (s \<noteq> [])"
| "truthy _ = True"

text \<open>The predicates \<^verbatim>\<open>_.isFunction\<close>, \<^verbatim>\<open>_.isArray\<close> and \<^verbatim>\<open>_.isObject\<close> of underscore.\<close>

fun isFunction :: "jsval \<Rightarrow> bool" where
  "isFunction (Fun n) = True"
| "isFunction (ValidateBySchema v) = True"
| "isFunction (ValidateByFunction v) = True"
| "isFunction (Sanitizer v) = True"
| "isFunction (Executor v) = True"
| "isFunction (Render v) = True"
| "isFunction _ = False"

fun isArray :: "jsval \<Rightarrow> bool" where
  "isArray (Arr xs) = True"
| "isArray (Ref a) = True"
| "isArray _ = False"

fun isObject :: "jsval \<Rightarrow> bool" where
  "isObject (Arr xs) = True"
| "isObject (Ref a) = True"
| "isObject (Obj kvs) = True"
| "isObject v = isFunction v"

text \<open>The operator \<^verbatim>\<open>typeof\<close>; note that \<^verbatim>\<open>typeof null\<close> is \<^verbatim>\<open>'object'\<close>.\<close>

fun typeof :: "jsval \<Rightarrow> string" where
  "typeof Undefined = ''undefined''"
| "typeof Null = ''object''"
| "typeof (Bool b) = ''boolean''"
| "typeof (Num n) = ''number''"
| "typeof (Str s) = ''string''"
| "typeof (Arr xs) = ''object''"
| "typeof (Ref a) = ''object''"
| "typeof (Obj kvs) = ''object''"
| "typeof v = ''function''"

text \<open>
  A key is an array index when it is the decimal numeral of a number below \<open>2^32 - 1\<close>.
\<close>

definition digit :: "char \<Rightarrow> bool" where
  "digit c = (48 \<le> (of_char c :: int) \<and> (of_char c :: int) \<le> 57)"

definition decimal :: "string \<Rightarrow> int" where
  "decimal s = foldl (\<lambda>n c. 10 * n + (of_char c - 48)) 0 s"

definition is_index :: "string \<Rightarrow> bool" where
  "is_index k = (k \<noteq> [] \<and> list_all digit k \<and> (length k = 1 \<or> hd k \<noteq> CHR ''0'')
                 \<and> decimal k < 4294967295)"

text \<open>
  Reading \<^verbatim>\<open>v.k\<close> or \<^verbatim>\<open>v[k]\<close> of a value that is neither \<^verbatim>\<open>null\<close> nor \<^verbatim>\<open>undefined\<close>: the own
  property of an object, the element of an array or the character of a string at an index,
  \<^verbatim>\<open>undefined\<close> otherwise.
\<close>

fun get :: "jsval \<Rightarrow> string \<Rightarrow> jsval" where
  "get (Obj kvs) k = (case map_of kvs k of Some v \<Rightarrow> v | None \<Rightarrow> Undefined)"
| "get (Arr xs) k =
     (if is_index k \<and> decimal k < int (length xs) then xs ! nat (decimal k) else Undefined)"
| "get (Str s) k =
     (if is_index k \<and> decimal k < int (length s) then Str [s ! nat (decimal k)] else Undefined)"
| "get _ k = Undefined"

text \<open>
  The assignment \<^verbatim>\<open>o[k] = v\<close>: an existing property keeps its place, a new one is added last.
  The builder assigns only to the objects it builds during resource expansion; assigning
  to a property of a primitive value is ignored by the language (the file is not in strict
  mode).
\<close>

fun assign :: "(string \<times> jsval) list \<Rightarrow> string \<Rightarrow> jsval \<Rightarrow> (string \<times> jsval) list" where
  "assign [] k v = [(k, v)]"
| "assign ((k', v') # kvs) k v = (if k' = k then (k, v) # kvs else (k', v') # assign kvs k v)"

fun set_prop :: "jsval \<Rightarrow> string \<Rightarrow> jsval \<Rightarrow> jsval" where
  "set_prop (Obj kvs) k v = Obj (assign kvs k v)"
| "set_prop o' k v = o'"

section \<open>The error responder\<close>

text \<open>
  Modelled from the spec: the module \<^verbatim>\<open>./errors/\<close> required by the source is not among
  the sources. Following section 4.4 of the specification, an error value is a plain
  value, a generic \<^verbatim>\<open>Error\<close> (only its message is guaranteed), a typed domain error without
  an inherent status (code, message, details), or a typed domain error exposing an HTTP
  status code (status, code, message, details). The last two are the instances of
  \<^verbatim>\<open>errors.Error\<close>; they accept a visitor, which is called at \<^verbatim>\<open>visitHttpError\<close> for an
  error with a status and at \<^verbatim>\<open>visitBlueprintError\<close> for an error without one.
\<close>

datatype thrown =
    Plain jsval
  | GenericError string
  | BlueprintError jsval jsval jsval
  | HttpError int jsval jsval jsval

fun typeof_thrown :: "thrown \<Rightarrow> string" where
  "typeof_thrown (Plain v) = typeof v"
| "typeof_thrown _ = ''object''"

text \<open>The response sink: what \<^verbatim>\<open>res.status\<close>, \<^verbatim>\<open>res.type\<close> and \<^verbatim>\<open>res.send\<close> have set so far.\<close>

record response =
  statusCode :: "int option"
  contentType :: "string option"
  body :: "jsval option"

definition fresh_response :: response where
  "fresh_response = \<lparr>statusCode = None, contentType = None, body = None\<rparr>"

definition res_status :: "int \<Rightarrow> response \<Rightarrow> response" where
  "res_status n res = res\<lparr>statusCode := Some n\<rparr>"

definition res_type :: "string \<Rightarrow> response \<Rightarrow> response" where
  "res_type t res = res\<lparr>contentType := Some t\<rparr>"

definition res_send :: "jsval \<Rightarrow> response \<Rightarrow> response" where
  "res_send b res = res\<lparr>body := Some b\<rparr>"

text \<open>
  Modelled from the spec: \<^verbatim>\<open>err.accept (visitor)\<close> of the missing errors module, for the
  two kinds of typed domain error.
\<close>

fun accept :: "thrown \<Rightarrow> (int \<Rightarrow> response \<Rightarrow> response) \<Rightarrow> (response \<Rightarrow> response) \<Rightarrow> response \<Rightarrow> response" where
  "accept (HttpError sc c m d) visitHttpError visitBlueprintError res = visitHttpError sc res"
| "accept (BlueprintError c m d) visitHttpError visitBlueprintError res = visitBlueprintError res"
| "accept _ visitHttpError visitBlueprintError res = res"

text \<open>The body \<^verbatim>\<open>{errors: {code, message}}\<close>, with \<^verbatim>\<open>details\<close> added when \<^verbatim>\<open>err.details\<close> is truthy.\<close>

definition error_data :: "jsval \<Rightarrow> jsval \<Rightarrow> jsval \<Rightarrow> jsval" where
  "error_data c m d =
     Obj [(''errors'', Obj ([(''code'', c), (''message'', m)] @
                            (if truthy d then [(''details'', d)] else [])))]"

fun handleError :: "thrown \<Rightarrow> response \<Rightarrow> response" where
  "handleError err res =
    (let errType = typeof_thrown err in
     if errType = ''string'' then
       (case err of
          Plain v \<Rightarrow> res_send v (res_type ''text/plain'' (res_status 400 res))
        | _ \<Rightarrow> res)
     else if errType = ''object'' then
       (let res1 = res_type ''application/json'' res in
        case err of
          HttpError sc c m d \<Rightarrow>
            res_send (error_data c m d) (accept err res_status (res_status 500) res1)
        | BlueprintError c m d \<Rightarrow>
            res_send (error_data c m d) (accept err res_status (res_status 500) res1)
        | GenericError m \<Rightarrow>
            res_send (Obj [(''errors'', Obj [(''message'', Str m)])]) (res_status 500 res1)
        | Plain v \<Rightarrow>
            res_send (Obj [(''errors'', Obj [(''details'', v)])]) (res_status 500 res1))
     else res)"

section \<open>The schema validation adapter\<close>

text \<open>
  The request offers \<^verbatim>\<open>req.check (schema)\<close>, which may throw, and \<^verbatim>\<open>req.validationErrors ()\<close>,
  whose result is falsy when the request passed the checks of the schema and the array of
  the failures otherwise (express-validator, not part of the repository).
\<close>

record request =
  check :: "jsval \<Rightarrow> thrown option"
  validationErrors :: "jsval \<Rightarrow> jsval"

text \<open>
  \<^verbatim>\<open>new f (args)\<close>: a \<^verbatim>\<open>TypeError\<close> when \<^verbatim>\<open>f\<close> is not a function. What a user function does
  as a constructor is a parameter: the value that reaches the catch block or the caller.
\<close>

definition construct :: "(jsval \<Rightarrow> jsval list \<Rightarrow> thrown) \<Rightarrow> string \<Rightarrow> jsval \<Rightarrow> jsval list \<Rightarrow> thrown" where
  "construct user_new what f args =
     (if isFunction f then user_new f args
      else GenericError (what @ '' is not a constructor''))"

text \<open>
  The middleware returned by \<^verbatim>\<open>validateBySchema (schema)\<close>, run on a request and a response:
  the result tells whether \<^verbatim>\<open>next\<close> was called, and the response. Inside the function the
  declaration \<^verbatim>\<open>var errors = req.validationErrors ()\<close> is hoisted, so every \<^verbatim>\<open>errors\<close> of the
  body, also the one in \<^verbatim>\<open>new errors.HttpError (...)\<close>, is this local variable and not the
  module required at the top of the file.
\<close>

definition validateBySchema :: "(jsval \<Rightarrow> jsval list \<Rightarrow> thrown) \<Rightarrow> jsval \<Rightarrow> request \<Rightarrow> response \<Rightarrow> bool \<times> response" where
  "validateBySchema user_new schema req res =
    (case check req schema of
       Some ex \<Rightarrow> (False, handleError ex res)
     | None \<Rightarrow>
        (let errors = validationErrors req schema in
         if \<not> truthy errors then (True, res)
         else
           (let err = construct user_new ''errors.HttpError'' (get errors ''HttpError'')
                        [Num 400, Str ''validation_failed'', Str ''Request validation failed'', errors]
            in (False, handleError err res))))"

section \<open>Strings, keys and arrays\<close>

definition SINGLE_ACTION_CONTROLLER_METHOD :: string where
  "SINGLE_ACTION_CONTROLLER_METHOD = ''__invoke''"

definition SINGLE_RESOURCE_BASE_PATH :: string where
  "SINGLE_RESOURCE_BASE_PATH = ''/:rcId''"

text \<open>\<^verbatim>\<open>s.split (c)\<close> for a separator of one character; the result is never empty.\<close>

fun split :: "char \<Rightarrow> string \<Rightarrow> string list" where
  "split c [] = [[]]"
| "split c (x # xs) =
     (if x = c then [] # split c xs
      else (case split c xs of p # ps \<Rightarrow> (x # p) # ps | [] \<Rightarrow> [[x]]))"

text \<open>\<^verbatim>\<open>s.toLowerCase ()\<close>, on the letters of ASCII.\<close>

definition lower_char :: "char \<Rightarrow> char" where
  "lower_char c =
     (case map_of (zip ''ABCDEFGHIJKLMNOPQRSTUVWXYZ'' ''abcdefghijklmnopqrstuvwxyz'') c of
        Some l \<Rightarrow> l
      | None \<Rightarrow> c)"

definition toLowerCase :: "string \<Rightarrow> string" where
  "toLowerCase s = map lower_char s"

definition startsWith :: "string \<Rightarrow> string \<Rightarrow> bool" where
  "startsWith s p = (take (length p) s = p)"

definition endsWith :: "string \<Rightarrow> string \<Rightarrow> bool" where
  "endsWith s p = (length p \<le> length s \<and> drop (length s - length p) s = p)"

text \<open>
  The keys of an object are enumerated by \<^verbatim>\<open>Object.keys\<close> and \<^verbatim>\<open>for (key in o)\<close> with the
  array indices first, in ascending order, and the other keys after them in the order of
  their insertion.
\<close>

definition own_entries :: "(string \<times> jsval) list \<Rightarrow> (string \<times> jsval) list" where
  "own_entries kvs =
     sort_key (\<lambda>kv. decimal (fst kv)) (filter (\<lambda>kv. is_index (fst kv)) kvs)
     @ filter (\<lambda>kv. \<not> is_index (fst kv)) kvs"

fun show_nat :: "nat \<Rightarrow> string" where
  "show_nat n =
     (if n < 10 then [''0123456789'' ! n] else show_nat (n div 10) @ [''0123456789'' ! (n mod 10)])"

text \<open>\<^verbatim>\<open>Object.keys (v)\<close> for a truthy value.\<close>

fun objectKeys :: "jsval \<Rightarrow> string list" where
  "objectKeys (Obj kvs) = map fst (own_entries kvs)"
| "objectKeys (Arr xs) = map show_nat [0 ..< length xs]"
| "objectKeys (Str s) = map show_nat [0 ..< length s]"
| "objectKeys _ = []"

text \<open>
  Strict equality, as used by \<^verbatim>\<open>indexOf\<close>: primitive values are compared by value; objects
  and functions are compared by identity, and only a shared array is the same object at
  two places.
\<close>

fun strict_equals :: "jsval \<Rightarrow> jsval \<Rightarrow> bool" where
  "strict_equals Undefined b = (b = Undefined)"
| "strict_equals Null b = (b = Null)"
| "strict_equals (Bool x) b = (b = Bool x)"
| "strict_equals (Num x) b = (b = Num x)"
| "strict_equals (Str x) b = (b = Str x)"
| "strict_equals (Ref a) b = (b = Ref a)"
| "strict_equals _ b = False"

text \<open>\<^verbatim>\<open>xs.indexOf (v)\<close>: the first position of \<^verbatim>\<open>v\<close>, or \<^verbatim>\<open>-1\<close>.\<close>

fun indexOf :: "jsval list \<Rightarrow> jsval \<Rightarrow> int" where
  "indexOf [] v = - 1"
| "indexOf (x # xs) v =
     (if strict_equals x v then 0
      else (let i = indexOf xs v in if i < 0 then - 1 else i + 1))"

text \<open>
  \<^verbatim>\<open>xs.splice (start, 1)\<close>: a negative start counts from the end of the array, so
  \<^verbatim>\<open>splice (-1, 1)\<close> removes the last element.
\<close>

definition splice1 :: "int \<Rightarrow> 'a list \<Rightarrow> 'a list" where
  "splice1 start xs =
     (let len = int (length xs);
          from = (if start < 0 then max (len + start) 0 else min start len)
      in take (nat from) xs @ drop (nat from + 1) xs)"

section \<open>Wiring-time errors and the environment of the builder\<close>

text \<open>
  One constructor for each \<^verbatim>\<open>throw\<close> of the builder, holding what the message is formatted
  from; \<open>TypeError\<close> stands for the errors raised by the language itself (a method called on
  a value that has none), \<open>Raised\<close> for what a user function throws.
\<close>

datatype error =
    MissingControllerProperty string
  | ControllerDoesNotExist jsval
  | MustDefineActions jsval
  | MustDefineResourceId jsval
  | AllowAndDeny string
  | InvalidVerb string
  | MustDefineActionOrView string string
  | InvalidActionFormat string
  | ControllerNotFound string
  | MethodNotDefined string string
  | MustDefineExecute string string
  | UnsupportedValidate jsval
  | BadReturnType
  | InvalidParameterSpecification string
  | OptsMustBeFunctionOrObject string
  | BadSpecification
  | TypeError string
  | Raised jsval

text \<open>
  What the builder uses and the repository does not define is a parameter:
  \<open>registry_get\<close> is \<^verbatim>\<open>objectPath.get (this._controllers, name)\<close>, the lookup of a controller in
  the registry given to the constructor; \<open>apply_fn f this args\<close> is the call
  \<^verbatim>\<open>f.apply (this, args)\<close> of a function at wiring time, which returns or throws;
  \<open>router_method name\<close> tells whether \<^verbatim>\<open>this._router[name]\<close> is a route-registering method of
  the router primitive; \<open>to_String\<close> is the conversion of a value that is not a string to a
  string; \<open>fn_length\<close> is the \<^verbatim>\<open>length\<close> property of a function.
\<close>

record env =
  registry_get :: "jsval \<Rightarrow> jsval"
  apply_fn :: "jsval \<Rightarrow> jsval \<Rightarrow> jsval list \<Rightarrow> error + jsval"
  router_method :: "string \<Rightarrow> bool"
  to_String :: "jsval \<Rightarrow> string"
  fn_length :: "jsval \<Rightarrow> nat"

text \<open>A value used as a property key or as an operand of \<^verbatim>\<open>+\<close> with a string.\<close>

fun to_str :: "env \<Rightarrow> jsval \<Rightarrow> string" where
  "to_str env (Str s) = s"
| "to_str env v = to_String env v"

text \<open>
  The calls recorded by the router primitive, in order: \<^verbatim>\<open>router[verb] (path, middleware)\<close>,
  \<^verbatim>\<open>router.use (path, handlers)\<close> and \<^verbatim>\<open>router.param (name, handler)\<close>.
\<close>

datatype registration =
    Route string string jsval
  | Use string jsval
  | Param string jsval

text \<open>
  The heap of the shared arrays: the elements of the array at each address; an address
  without an entry holds the empty array. The router primitive takes the handlers out of
  an array when it is called, so a registration records the elements that a shared array
  has at the call.
\<close>

type_synonym heap = "(nat \<times> jsval list) list"

definition contents :: "heap \<Rightarrow> nat \<Rightarrow> jsval list" where
  "contents h a = (case map_of h a of Some xs \<Rightarrow> xs | None \<Rightarrow> [])"

fun put :: "heap \<Rightarrow> nat \<Rightarrow> jsval list \<Rightarrow> heap" where
  "put [] a xs = [(a, xs)]"
| "put ((b, ys) # h) a xs = (if b = a then (a, xs) # h else (b, ys) # put h a xs)"

fun snapshot :: "heap \<Rightarrow> jsval \<Rightarrow> jsval" where
  "snapshot h (Ref a) = Arr (contents h a)"
| "snapshot h v = v"

text \<open>
  The builder: \<^verbatim>\<open>_basePath\<close>, \<^verbatim>\<open>_router\<close> and \<^verbatim>\<open>_params\<close>; its \<^verbatim>\<open>_controllers\<close> never change and
  are read through \<open>registry_get\<close>. The state that the calls of the builder change also
  holds the heap of the shared arrays, which is not a field of the JavaScript object; a
  new builder is given the empty heap here, and a caller with shared arrays sets it.
\<close>

record builder =
  basePath :: string
  router :: "registration list"
  params :: "string list"
  heap :: heap

definition RouterBuilder :: "string option \<Rightarrow> builder" where
  "RouterBuilder bp =
     \<lparr>basePath = (case bp of None \<Rightarrow> ''/'' | Some p \<Rightarrow> if p = [] then ''/'' else p),
      router = [], params = [], heap = []\<rparr>"

definition getRouter :: "builder \<Rightarrow> registration list" where
  "getRouter rb = router rb"

text \<open>A call of the builder ends by returning or by throwing; both leave a builder behind.\<close>

datatype outcome = Threw error builder | Done builder

section \<open>Resolving an action\<close>

text \<open>The result is the pair held by a \<^verbatim>\<open>MethodCall\<close>: the controller and its method.\<close>

definition resolveController :: "env \<Rightarrow> jsval \<Rightarrow> error + (jsval \<times> jsval)" where
  "resolveController env action =
    (case action of
       Str a \<Rightarrow>
        (let parts = split (CHR ''@'') a in
         if length parts < 1 \<or> length parts > 2 then Inl (InvalidActionFormat a)
         else
          (let controllerName = hd parts;
               actionName = (if length parts = 2 then parts ! 1 else SINGLE_ACTION_CONTROLLER_METHOD);
               controller = registry_get env (Str controllerName)
           in if \<not> truthy controller then Inl (ControllerNotFound controllerName)
              else
               (let method = get controller actionName
                in if \<not> truthy method then Inl (MethodNotDefined controllerName actionName)
                   else Inr (controller, method))))
     | _ \<Rightarrow> Inl (TypeError ''action.split is not a function''))"

definition MethodCall_invoke :: "env \<Rightarrow> jsval \<times> jsval \<Rightarrow> jsval list \<Rightarrow> error + jsval" where
  "MethodCall_invoke env call args =
     (if isFunction (snd call) then apply_fn env (snd call) (fst call) args
      else Inl (TypeError ''this._method.apply is not a function''))"

section \<open>Verb handlers\<close>

text \<open>
  \<^verbatim>\<open>middleware.push (v)\<close> and \<^verbatim>\<open>middleware.concat (v)\<close>. The variable \<^verbatim>\<open>middleware\<close> is
  \<^verbatim>\<open>opts.before\<close> itself when that is truthy, so a push writes into the array of the
  specification, and it need not be an array: only arrays have \<^verbatim>\<open>push\<close>; arrays and strings
  have \<^verbatim>\<open>concat\<close>. A push into a shared array changes the heap; \<^verbatim>\<open>concat\<close> reads its operands
  as they are at the call and returns a new array.
\<close>

definition push :: "heap \<Rightarrow> jsval \<Rightarrow> jsval \<Rightarrow> error + (jsval \<times> heap)" where
  "push h middleware v =
     (case middleware of
        Arr xs \<Rightarrow> Inr (Arr (xs @ [v]), h)
      | Ref a \<Rightarrow> Inr (Ref a, put h a (contents h a @ [v]))
      | _ \<Rightarrow> Inl (TypeError ''middleware.push is not a function''))"

definition concat_after :: "env \<Rightarrow> heap \<Rightarrow> jsval \<Rightarrow> jsval \<Rightarrow> error + jsval" where
  "concat_after env h middleware v =
     (let appended = (case v of Arr ys \<Rightarrow> ys | Ref b \<Rightarrow> contents h b | _ \<Rightarrow> [v]) in
      case middleware of
        Arr xs \<Rightarrow> Inr (Arr (xs @ appended))
      | Ref a \<Rightarrow> Inr (Arr (contents h a @ appended))
      | Str s \<Rightarrow> Inr (Str (s @ to_str env v))
      | _ \<Rightarrow> Inl (TypeError ''middleware.concat is not a function''))"

text \<open>The test \<^verbatim>\<open>middleware.length > 0\<close>.\<close>

definition nonempty :: "env \<Rightarrow> heap \<Rightarrow> jsval \<Rightarrow> bool" where
  "nonempty env h middleware =
     (case middleware of
        Arr xs \<Rightarrow> length xs > 0
      | Ref a \<Rightarrow> length (contents h a) > 0
      | Str s \<Rightarrow> length s > 0
      | _ \<Rightarrow> isFunction middleware \<and> fn_length env middleware > 0)"

text \<open>The object \<^verbatim>\<open>{path, options?}\<close> passed to the controller method.\<close>

definition actionParams :: "string \<Rightarrow> jsval \<Rightarrow> jsval" where
  "actionParams path opts =
     Obj ((''path'', Str path) #
          (if truthy (get opts ''options'') then [(''options'', get opts ''options'')] else []))"

text \<open>
  The units pushed for an action (the branch \<^verbatim>\<open>if (opts.action)\<close> of \<^verbatim>\<open>defineVerbHandler\<close>):
  the controller method is resolved and invoked with \<^verbatim>\<open>{path, options?}\<close>, and its result
  decides what is pushed. The result is the value of \<^verbatim>\<open>middleware\<close> and the heap.
\<close>

definition actionUnits :: "env \<Rightarrow> heap \<Rightarrow> string \<Rightarrow> string \<Rightarrow> jsval \<Rightarrow> jsval \<Rightarrow> error + (jsval \<times> heap)" where
  "actionUnits env h verb path opts middleware =
    (case resolveController env (get opts ''action'') of
       Inl e \<Rightarrow> Inl e
     | Inr controller \<Rightarrow>
        (let params = actionParams path opts
         in case MethodCall_invoke env controller [params] of
              Inl e \<Rightarrow> Inl e
            | Inr result \<Rightarrow>
               if isFunction result \<or> isArray result then push h middleware result
               else if isObject result then
                 (if \<not> truthy (get result ''execute'') then Inl (MustDefineExecute verb path)
                  else
                   (case (if truthy (get result ''validate'') then
                            (let validate = get result ''validate'' in
                             if isFunction validate then push h middleware (ValidateByFunction validate)
                             else if isObject validate \<and> \<not> isArray validate then
                               push h middleware (ValidateBySchema validate)
                             else Inl (UnsupportedValidate validate))
                          else Inr (middleware, h)) of
                      Inl e \<Rightarrow> Inl e
                    | Inr m1 \<Rightarrow>
                       (case (if truthy (get result ''sanitize'')
                              then push (snd m1) (fst m1) (Sanitizer (get result ''sanitize''))
                              else Inr m1) of
                          Inl e \<Rightarrow> Inl e
                        | Inr m2 \<Rightarrow> push (snd m2) (fst m2) (Executor (get result ''execute'')))))
               else Inl BadReturnType))"

text \<open>
  The middleware assembled by \<^verbatim>\<open>defineVerbHandler\<close>, from the check that an action or a view
  is defined to the concatenation of \<^verbatim>\<open>opts.after\<close>, and the heap after it. Reading a
  property of \<^verbatim>\<open>null\<close> or \<^verbatim>\<open>undefined\<close> options throws a \<^verbatim>\<open>TypeError\<close>. Every throw of this
  part comes before its first push (the first push is the one that can fail, and \<^verbatim>\<open>concat\<close>
  does not fail once a push has succeeded), so the heap at a throw is the heap before.
\<close>

definition pipeline :: "env \<Rightarrow> heap \<Rightarrow> string \<Rightarrow> string \<Rightarrow> jsval \<Rightarrow> error + (jsval \<times> heap)" where
  "pipeline env h verb path opts =
    (if opts = Undefined \<or> opts = Null then Inl (TypeError ''cannot read property action'')
     else if get opts ''action'' = Undefined \<and> get opts ''view'' = Undefined
       then Inl (MustDefineActionOrView verb path)
     else
      (let middleware = (if truthy (get opts ''before'') then get opts ''before'' else Arr [])
       in case (if truthy (get opts ''action'') then actionUnits env h verb path opts middleware
                else if truthy (get opts ''view'') then push h middleware (Render (get opts ''view''))
                else Inr (middleware, h)) of
            Inl e \<Rightarrow> Inl e
          | Inr m \<Rightarrow>
             if truthy (get opts ''after'') then
               (case concat_after env (snd m) (fst m) (get opts ''after'') of
                  Inl e \<Rightarrow> Inl e
                | Inr middleware' \<Rightarrow> Inr (middleware', snd m))
             else Inr m))"

definition defineVerbHandler :: "env \<Rightarrow> builder \<Rightarrow> string \<Rightarrow> string \<Rightarrow> jsval \<Rightarrow> outcome" where
  "defineVerbHandler env rb verb path opts =
    (if \<not> router_method env (toLowerCase verb) then Threw (InvalidVerb verb) rb
     else
      (case pipeline env (heap rb) verb path opts of
         Inl e \<Rightarrow> Threw e rb
       | Inr m \<Rightarrow>
          if nonempty env (snd m) (fst m)
          then Done (rb\<lparr>router := router rb @ [Route (toLowerCase verb) path (snapshot (snd m) (fst m))],
                        heap := snd m\<rparr>)
          else Done (rb\<lparr>heap := snd m\<rparr>)))"

section \<open>Parameters\<close>

text \<open>
  \<^verbatim>\<open>addParameter (param, opts, override)\<close>; an absent \<^verbatim>\<open>override\<close> is \<open>False\<close>. The name given
  to the router primitive is \<^verbatim>\<open>param.slice (1)\<close>.
\<close>

definition parameterHandler :: "env \<Rightarrow> string \<Rightarrow> jsval \<Rightarrow> error + jsval" where
  "parameterHandler env param opts =
    (if isFunction opts then Inr opts
     else if isObject opts then
       (if truthy (get opts ''action'') then
          (case resolveController env (get opts ''action'') of
             Inl e \<Rightarrow> Inl e
           | Inr controller \<Rightarrow> MethodCall_invoke env controller [])
        else Inl (InvalidParameterSpecification param))
     else Inl (OptsMustBeFunctionOrObject param))"

definition addParameter :: "env \<Rightarrow> builder \<Rightarrow> string \<Rightarrow> jsval \<Rightarrow> bool \<Rightarrow> outcome" where
  "addParameter env rb param opts override =
    (if param \<in> set (params rb) \<and> \<not> override then Done rb
     else
      (let rawParam = drop 1 param in
       case parameterHandler env param opts of
         Inl e \<Rightarrow> Threw e rb
       | Inr handler \<Rightarrow>
          (let rb1 = (if handler \<noteq> Undefined \<and> handler \<noteq> Null
                      then rb\<lparr>router := router rb @ [Param rawParam handler]\<rparr> else rb)
           in Done (if param \<notin> set (params rb1) then rb1\<lparr>params := params rb1 @ [param]\<rparr> else rb1))))"

section \<open>Resource expansion\<close>

definition makeAction :: "env \<Rightarrow> jsval \<Rightarrow> jsval \<Rightarrow> jsval \<Rightarrow> jsval" where
  "makeAction env controller method options =
     Obj ((''action'', Str (to_str env controller @ ''@'' @ to_str env method)) #
          (if truthy options then [(''options'', options)] else []))"

text \<open>
  The values \<^verbatim>\<open>opts.deny[i]\<close> for \<^verbatim>\<open>i\<close> below \<^verbatim>\<open>opts.deny.length\<close>, for a truthy \<^verbatim>\<open>opts.deny\<close>.
\<close>

definition elements :: "env \<Rightarrow> jsval \<Rightarrow> jsval list" where
  "elements env v =
     (case v of
        Arr xs \<Rightarrow> xs
      | Str s \<Rightarrow> map (\<lambda>c. Str [c]) s
      | _ \<Rightarrow> if isFunction v then replicate (fn_length env v) Undefined else [])"

text \<open>
  The loop over \<^verbatim>\<open>opts.deny\<close>: each entry is looked up with \<^verbatim>\<open>indexOf\<close> and the result is
  passed to \<^verbatim>\<open>splice\<close> as it is. The array is the one of \<^verbatim>\<open>Object.keys (actions)\<close>, since \<^verbatim>\<open>allow\<close>
  and \<^verbatim>\<open>deny\<close> are not both set when the loop is reached.
\<close>

fun removeDenied :: "jsval \<Rightarrow> jsval list \<Rightarrow> jsval" where
  "removeDenied (Arr xs) denied = Arr (foldl (\<lambda>allowed d. splice1 (indexOf allowed d) allowed) xs denied)"
| "removeDenied v denied = v"

definition allowedActions :: "env \<Rightarrow> jsval \<Rightarrow> jsval \<Rightarrow> jsval \<Rightarrow> jsval" where
  "allowedActions env actions allow deny =
    (let allowed = Arr (map Str (objectKeys actions));
         allowed = (if truthy allow then allow else allowed)
     in if truthy deny then removeDenied allowed (elements env deny) else allowed)"

text \<open>
  \<^verbatim>\<open>processAction\<close>, on the pair of the collective specification \<^verbatim>\<open>spec\<close> and the
  single-resource specification \<^verbatim>\<open>singleSpec\<close>. An item of an array of definitions may be
  \<^verbatim>\<open>null\<close> or \<^verbatim>\<open>undefined\<close>, whose \<^verbatim>\<open>path\<close> cannot be read.
\<close>

definition processAction :: "env \<Rightarrow> jsval \<Rightarrow> jsval \<Rightarrow> jsval \<Rightarrow> jsval \<times> jsval \<Rightarrow> error + (jsval \<times> jsval)" where
  "processAction env controllerName options action specs =
    (let spec = fst specs; singleSpec = snd specs in
     if action = Undefined \<or> action = Null then Inl (TypeError ''cannot read property path'')
     else
      (let made = makeAction env controllerName (get action ''method'') options;
           verb = to_str env (get action ''verb'')
       in if truthy (get action ''path'') then
            (case get action ''path'' of
               Str path \<Rightarrow>
                if startsWith path SINGLE_RESOURCE_BASE_PATH then
                  (let part = drop (length SINGLE_RESOURCE_BASE_PATH) path in
                   if length part = 0 then Inr (spec, set_prop singleSpec verb made)
                   else
                    (let single1 = (if \<not> truthy (get singleSpec part)
                                    then set_prop singleSpec part (Obj []) else singleSpec)
                     in Inr (spec, set_prop single1 part (set_prop (get single1 part) verb made))))
                else Inr (set_prop spec path (Obj [(verb, made)]), singleSpec)
             | _ \<Rightarrow> Inl (TypeError ''action.path.startsWith is not a function''))
          else Inr (set_prop spec verb made, singleSpec)))"

text \<open>A loop that stops at the first error.\<close>

fun foldE :: "('a \<Rightarrow> 's \<Rightarrow> error + 's) \<Rightarrow> 'a list \<Rightarrow> 's \<Rightarrow> error + 's" where
  "foldE f [] s = Inr s"
| "foldE f (x # xs) s = (case f x s of Inl e \<Rightarrow> Inl e | Inr s' \<Rightarrow> foldE f xs s')"

text \<open>The body of \<^verbatim>\<open>allowed.forEach\<close>: the definitions under one action name.\<close>

definition processName :: "env \<Rightarrow> jsval \<Rightarrow> jsval \<Rightarrow> jsval \<Rightarrow> jsval \<Rightarrow> jsval \<times> jsval \<Rightarrow> error + (jsval \<times> jsval)" where
  "processName env controllerName options actions name specs =
    (let action = get actions (to_str env name) in
     case action of
       Arr items \<Rightarrow> foldE (processAction env controllerName options) items specs
     | _ \<Rightarrow> if isObject action then processAction env controllerName options action specs
            else Inr specs)"

text \<open>
  \<^verbatim>\<open>defineResource\<close> up to its last statement: the checks, the allowed names, the two
  specifications, and the single-resource one stored under \<^verbatim>\<open>'/:' + resourceId\<close>.
\<close>

definition resourceSpec :: "env \<Rightarrow> string \<Rightarrow> jsval \<Rightarrow> error + jsval" where
  "resourceSpec env path opts =
    (if opts = Undefined \<or> opts = Null then Inl (TypeError ''cannot read property controller'')
     else
      (let controllerName = get opts ''controller'' in
       if \<not> truthy controllerName then Inl (MissingControllerProperty path)
       else
        (let controller = registry_get env controllerName in
         if \<not> truthy controller then Inl (ControllerDoesNotExist controllerName)
         else
          (let actions = get controller ''actions'' in
           if \<not> truthy actions then Inl (MustDefineActions controllerName)
           else
            (let resourceId = get controller ''resourceId'' in
             if \<not> truthy resourceId then Inl (MustDefineResourceId controllerName)
             else if truthy (get opts ''allow'') \<and> truthy (get opts ''deny'') then Inl (AllowAndDeny path)
             else
              (let allowed = allowedActions env actions (get opts ''allow'') (get opts ''deny'');
                   singleBasePath = ''/:'' @ to_str env resourceId
               in case allowed of
                    Arr names \<Rightarrow>
                     (case foldE (processName env controllerName (get opts ''options'') actions)
                             names (Obj [], Obj []) of
                        Inl e \<Rightarrow> Inl e
                      | Inr specs \<Rightarrow> Inr (set_prop (fst specs) singleBasePath (snd specs)))
                  | _ \<Rightarrow> Inl (TypeError ''allowed.forEach is not a function'')))))))"

text \<open>
  The last statement of \<^verbatim>\<open>defineResource\<close> feeds the specification back into
  \<^verbatim>\<open>addSpecification\<close>, here the parameter \<open>self\<close>.
\<close>

definition defineResource :: "(builder \<Rightarrow> jsval \<Rightarrow> string option \<Rightarrow> outcome option) \<Rightarrow> env \<Rightarrow> builder \<Rightarrow> string \<Rightarrow> jsval \<Rightarrow> outcome option" where
  "defineResource self env rb path opts =
    (case resourceSpec env path opts of
       Inl e \<Rightarrow> Some (Threw e rb)
     | Inr spec \<Rightarrow> self rb spec (Some path))"

section \<open>Adding a specification\<close>

definition processVerb :: "(builder \<Rightarrow> jsval \<Rightarrow> string option \<Rightarrow> outcome option) \<Rightarrow> env \<Rightarrow> builder \<Rightarrow> string \<Rightarrow> string \<Rightarrow> jsval \<Rightarrow> outcome option" where
  "processVerb self env rb verb currPath opts =
    (if verb = ''resource'' then defineResource self env rb currPath opts
     else Some (defineVerbHandler env rb verb currPath opts))"

definition processUse :: "builder \<Rightarrow> string \<Rightarrow> jsval \<Rightarrow> outcome" where
  "processUse rb path handlers =
     Done (rb\<lparr>router := router rb @ [Use path (snapshot (heap rb) handlers)]\<rparr>)"

text \<open>One turn of the loop \<^verbatim>\<open>for (var key in spec)\<close>.\<close>

definition processKey :: "(builder \<Rightarrow> jsval \<Rightarrow> string option \<Rightarrow> outcome option) \<Rightarrow> env \<Rightarrow> string \<Rightarrow> string \<times> jsval \<Rightarrow> builder \<Rightarrow> outcome option" where
  "processKey self env currPath entry rb =
    (let key = fst entry; val = snd entry in
     if key = ''head'' then Some (Done rb)
     else if key = ''use'' then Some (processUse rb currPath val)
     else if key \<noteq> [] \<and> hd key = CHR ''/'' then
       self rb val (Some (currPath @ (if endsWith currPath ''/'' then drop 1 key else key)))
     else if key \<noteq> [] \<and> hd key = CHR '':'' then Some (addParameter env rb key val False)
     else processVerb self env rb key currPath val)"

text \<open>A loop over the keys that stops when a turn throws, or does not return.\<close>

fun forKeys :: "('a \<Rightarrow> builder \<Rightarrow> outcome option) \<Rightarrow> 'a list \<Rightarrow> builder \<Rightarrow> outcome option" where
  "forKeys f [] rb = Some (Done rb)"
| "forKeys f (k # ks) rb =
     (case f k rb of
        None \<Rightarrow> None
      | Some (Threw e rb') \<Rightarrow> Some (Threw e rb')
      | Some (Done rb') \<Rightarrow> forKeys f ks rb')"

text \<open>
  The body of \<^verbatim>\<open>addSpecification (spec, currPath)\<close>, with the recursive calls made through
  \<open>self\<close>; a falsy \<^verbatim>\<open>currPath\<close> (absent or empty) is replaced by the base path.
\<close>

definition addSpecification_body :: "(builder \<Rightarrow> jsval \<Rightarrow> string option \<Rightarrow> outcome option) \<Rightarrow> env \<Rightarrow> builder \<Rightarrow> jsval \<Rightarrow> string option \<Rightarrow> outcome option" where
  "addSpecification_body self env rb spec currPath0 =
    (let currPath = (case currPath0 of None \<Rightarrow> basePath rb
                     | Some p \<Rightarrow> if p = [] then basePath rb else p)
     in if isArray spec \<or> isFunction spec then
          Some (Done (rb\<lparr>router := router rb @ [Use currPath (snapshot (heap rb) spec)]\<rparr>))
        else
         (case spec of
            Obj kvs \<Rightarrow>
             (case (if truthy (get spec ''head'')
                    then processVerb self env rb ''head'' currPath (get spec ''head'')
                    else Some (Done rb)) of
                None \<Rightarrow> None
              | Some (Threw e rb') \<Rightarrow> Some (Threw e rb')
              | Some (Done rb') \<Rightarrow> forKeys (processKey self env currPath) (own_entries kvs) rb')
          | _ \<Rightarrow> Some (Threw BadSpecification rb)))"

text \<open>
  \<^verbatim>\<open>addSpecification\<close> itself. The recursion follows the specification tree and, at a
  resource, continues in the expanded specification, which is not a part of that tree; the
  first argument bounds the depth of the calls, and \<open>None\<close> says that the bound was reached.
\<close>

primrec addSpecification :: "nat \<Rightarrow> env \<Rightarrow> builder \<Rightarrow> jsval \<Rightarrow> string option \<Rightarrow> outcome option" where
  "addSpecification 0 env rb spec currPath = None"
| "addSpecification (Suc n) env rb spec currPath =
     addSpecification_body (addSpecification n env) env rb spec currPath"

section \<open>Sample inputs\<close>

text \<open>
  A registry with three resource controllers. The methods of the controllers are the
  functions 1 and 2: function 1 returns the middleware function 10, function 2 returns a
  descriptor with a validation schema, a sanitizer and an execution function.
\<close>

definition sample_registry :: jsval where
  "sample_registry = Obj
     [(''Message'', Obj
        [(''resourceId'', Str ''messageId''),
         (''actions'', Obj
            [(''create'', Obj [(''verb'', Str ''post''), (''method'', Str ''create'')]),
             (''getAll'', Obj [(''verb'', Str ''get''), (''method'', Str ''getAll'')]),
             (''get'', Obj [(''verb'', Str ''get''), (''path'', Str ''/:rcId''), (''method'', Str ''get'')]),
             (''count'', Obj [(''verb'', Str ''get''), (''path'', Str ''/count''), (''method'', Str ''count'')])]),
         (''create'', Fun 1), (''getAll'', Fun 1), (''get'', Fun 2), (''count'', Fun 1)]),
      (''User'', Obj
        [(''resourceId'', Str ''id''),
         (''actions'', Obj
            [(''get'', Obj [(''verb'', Str ''get''), (''path'', Str ''/:id''), (''method'', Str ''get'')])]),
         (''get'', Fun 1)]),
      (''Post'', Obj
        [(''resourceId'', Str ''postId''),
         (''actions'', Obj
            [(''getAll'', Obj [(''verb'', Str ''get''), (''method'', Str ''getAll'')]),
             (''search'', Obj [(''verb'', Str ''get''), (''method'', Str ''search'')])]),
         (''getAll'', Fun 1), (''search'', Fun 1)])]"

definition sample_env :: env where
  "sample_env =
     \<lparr>registry_get = (\<lambda>name. case name of Str s \<Rightarrow> get sample_registry s | _ \<Rightarrow> Undefined),
      apply_fn = (\<lambda>f this args.
         if f = Fun 1 then Inr (Fun 10)
         else if f = Fun 2 then
           Inr (Obj [(''validate'', Obj [(''id'', Obj [(''notEmpty'', Bool True)])]),
                     (''sanitize'', Fun 11), (''execute'', Fun 12)])
         else Inr Undefined),
      router_method = (\<lambda>name. name \<in> set [''get'', ''post'', ''put'', ''delete'', ''head'']),
      to_String = (\<lambda>v. case v of Undefined \<Rightarrow> ''undefined'' | Null \<Rightarrow> ''null'' | _ \<Rightarrow> ''[object Object]''),
      fn_length = (\<lambda>f. 3)\<rparr>"

text \<open>A request that fails the checks of its schema with one failure on the field \<^verbatim>\<open>email\<close>.\<close>

definition failing_request :: request where
  "failing_request =
     \<lparr>check = (\<lambda>schema. None),
      validationErrors = (\<lambda>schema. Arr [Obj [(''param'', Str ''email''), (''msg'', Str ''Invalid email'')]])\<rparr>"

definition no_constructors :: "jsval \<Rightarrow> jsval list \<Rightarrow> thrown" where
  "no_constructors f args = Plain Undefined"

text \<open>
  Hooks shared between places: the array at the address 1 holds the function 20. The
  specification gives this one array to two verb nodes as their \<^verbatim>\<open>before\<close> hooks; the
  single node gives it as its \<^verbatim>\<open>before\<close> and as its \<^verbatim>\<open>after\<close> hooks.
\<close>

definition shared_hooks_builder :: builder where
  "shared_hooks_builder = \<lparr>basePath = ''/'', router = [], params = [], heap = [(1, [Fun 20])]\<rparr>"

definition shared_hooks_spec :: jsval where
  "shared_hooks_spec =
     Obj [(''get'', Obj [(''before'', Ref 1), (''view'', Str ''home.pug'')]),
          (''post'', Obj [(''before'', Ref 1), (''action'', Str ''Message@create'')])]"

definition same_hooks_node :: jsval where
  "same_hooks_node =
     Obj [(''before'', Ref 1), (''action'', Str ''Message@create''), (''after'', Ref 1)]"

text \<open>A specification object all of whose properties are objects.\<close>

fun isPlainObject :: "jsval \<Rightarrow> bool" where
  "isPlainObject (Obj kvs) = True"
| "isPlainObject _ = False"

section \<open>Counting the routes of an expanded specification\<close>

text \<open>
  The keys of a specification object are told apart by their first character. A key is
  read as a verb when it is neither \<^verbatim>\<open>use\<close> nor \<^verbatim>\<open>resource\<close> and begins with neither \<^verbatim>\<open>/\<close> nor \<^verbatim>\<open>:\<close>.
\<close>

definition slash :: "string \<Rightarrow> bool" where
  "slash key = (key \<noteq> [] \<and> hd key = CHR ''/'')"
















definition singleBasePath :: "env \<Rightarrow> jsval \<Rightarrow> string" where
  "singleBasePath env opts =
     ''/:'' @ to_str env (get (registry_get env (get opts ''controller'')) ''resourceId'')"


section \<open>Properties of the error responder\<close>

text \<open>
  Claim C10. An error value whose \<^verbatim>\<open>typeof\<close> is neither \<^verbatim>\<open>'string'\<close> nor \<^verbatim>\<open>'object'\<close> (a number,
  a boolean, \<^verbatim>\<open>undefined\<close>, a function) makes the error responder do nothing: the response
  sink is returned as it was, with no status set and no body sent by the call.
\<close>

theorem handleError_other_type_noop:
  assumes "typeof_thrown err \<noteq> ''string''" and "typeof_thrown err \<noteq> ''object''"
  shows "handleError err res = res"
  using assms by (simp add: Let_def)

theorem handleError_other_type_noop_witness:
  "typeof_thrown (Plain (Num 42)) \<noteq> ''string'' \<and> typeof_thrown (Plain (Num 42)) \<noteq> ''object''
   \<and> handleError (Plain (Num 42)) fresh_response = fresh_response
   \<and> statusCode (handleError (Plain (Bool True)) fresh_response) = None
   \<and> body (handleError (Plain Undefined) fresh_response) = None"
  using handleError_other_type_noop [of "Plain (Num 42)" fresh_response]
        handleError_other_type_noop [of "Plain (Bool True)" fresh_response]
        handleError_other_type_noop [of "Plain Undefined" fresh_response]
  by (simp add: fresh_response_def)

text \<open>
  Claim C7. The mapping of the error responder: a plain string gives status 400 with a
  \<^verbatim>\<open>text/plain\<close> body equal to the string; a typed domain error carrying an HTTP status code
  gives that status with the JSON body \<^verbatim>\<open>{errors: {code, message}}\<close>, to which \<^verbatim>\<open>details\<close> is
  added when the error has (truthy) details; a typed domain error without a status gives
  500 with the same body; a generic \<^verbatim>\<open>Error\<close> gives 500 with \<^verbatim>\<open>{errors: {message}}\<close>; any
  other object (a plain object, an array, \<^verbatim>\<open>null\<close>) gives 500 with
  \<^verbatim>\<open>{errors: {details: <the object>}}\<close>.
\<close>

theorem handleError_mapping:
  "handleError (Plain (Str s)) res =
      res\<lparr>statusCode := Some 400, contentType := Some ''text/plain'', body := Some (Str s)\<rparr>
   \<and> handleError (HttpError sc c m d) res =
      res\<lparr>statusCode := Some sc, contentType := Some ''application/json'',
          body := Some (Obj [(''errors'', Obj ([(''code'', c), (''message'', m)] @
                               (if truthy d then [(''details'', d)] else [])))])\<rparr>
   \<and> handleError (BlueprintError c m d) res =
      res\<lparr>statusCode := Some 500, contentType := Some ''application/json'',
          body := Some (Obj [(''errors'', Obj ([(''code'', c), (''message'', m)] @
                               (if truthy d then [(''details'', d)] else [])))])\<rparr>
   \<and> handleError (GenericError msg) res =
      res\<lparr>statusCode := Some 500, contentType := Some ''application/json'',
          body := Some (Obj [(''errors'', Obj [(''message'', Str msg)])])\<rparr>
   \<and> handleError (Plain (Obj kvs)) res =
      res\<lparr>statusCode := Some 500, contentType := Some ''application/json'',
          body := Some (Obj [(''errors'', Obj [(''details'', Obj kvs)])])\<rparr>
   \<and> handleError (Plain (Arr xs)) res =
      res\<lparr>statusCode := Some 500, contentType := Some ''application/json'',
          body := Some (Obj [(''errors'', Obj [(''details'', Arr xs)])])\<rparr>
   \<and> handleError (Plain Null) res =
      res\<lparr>statusCode := Some 500, contentType := Some ''application/json'',
          body := Some (Obj [(''errors'', Obj [(''details'', Null)])])\<rparr>"
  by (simp add: Let_def res_status_def res_type_def res_send_def error_data_def)

theorem handleError_mapping_witness:
  "handleError (Plain (Str ''bad input'')) fresh_response =
      \<lparr>statusCode = Some 400, contentType = Some ''text/plain'', body = Some (Str ''bad input'')\<rparr>
   \<and> handleError (HttpError 404 (Str ''missing'') (Str ''not found'') Undefined) fresh_response =
      \<lparr>statusCode = Some 404, contentType = Some ''application/json'',
       body = Some (Obj [(''errors'', Obj [(''code'', Str ''missing''), (''message'', Str ''not found'')])])\<rparr>
   \<and> handleError (GenericError ''boom'') fresh_response =
      \<lparr>statusCode = Some 500, contentType = Some ''application/json'',
       body = Some (Obj [(''errors'', Obj [(''message'', Str ''boom'')])])\<rparr>"
  using handleError_mapping [of "''bad input''" fresh_response 404 "Str ''missing''" "Str ''not found''" Undefined]
        handleError_mapping [of "''x''" fresh_response 0 Null Null Null "''boom''"]
  by (simp add: fresh_response_def)

section \<open>Properties of the schema validation adapter\<close>

text \<open>
  Whenever the checks of a schema fail, the result of \<^verbatim>\<open>req.validationErrors ()\<close> is an
  array, which has no property \<^verbatim>\<open>HttpError\<close>: the response is the one for the \<^verbatim>\<open>TypeError\<close>
  thrown by \<^verbatim>\<open>new\<close>.
\<close>

lemma validateBySchema_failures_array:
  assumes "check req schema = None" and "validationErrors req schema = Arr failures"
  shows "validateBySchema user_new schema req res =
           (False, handleError (GenericError ''errors.HttpError is not a constructor'') res)"
  using assms by (simp add: validateBySchema_def construct_def is_index_def digit_def)

text \<open>
  Claim C4, evaluated on the code. The claim says that a request failing the schema checks
  is answered through a structured validation failure (status 400, code
  \<^verbatim>\<open>validation_failed\<close>, the validation details). In the source the local variable \<^verbatim>\<open>errors\<close>
  hides the errors module, so \<^verbatim>\<open>errors.HttpError\<close> is a property of the array of failures,
  that is \<^verbatim>\<open>undefined\<close>; \<^verbatim>\<open>new\<close> throws a \<^verbatim>\<open>TypeError\<close>, the catch block hands it to the error
  responder, and the client receives status 500 with the message of that \<^verbatim>\<open>TypeError\<close>.
\<close>

theorem validateBySchema_failure_answers_500:
  "validateBySchema no_constructors (Obj [(''email'', Obj [(''isEmail'', Obj [])])])
       failing_request fresh_response =
     (False,
      \<lparr>statusCode = Some 500, contentType = Some ''application/json'',
       body = Some (Obj [(''errors'',
                Obj [(''message'', Str ''errors.HttpError is not a constructor'')])])\<rparr>)"
  by (simp add: validateBySchema_def failing_request_def construct_def fresh_response_def
      Let_def res_status_def res_type_def res_send_def)

section \<open>Properties of parameters\<close>

lemma addParameter_caches:
  assumes "addParameter env rb param opts ov = Done rb1"
  shows "param \<in> set (params rb1)"
  using assms
  by (auto simp: addParameter_def Let_def split: if_splits sum.splits)

text \<open>
  Claim C9. \<^verbatim>\<open>addParameter\<close> never looks at the first character of the name: for every
  non-empty name, with or without the sigil, whenever a handler is registered (the name is
  new or \<^verbatim>\<open>override\<close> is set, and the options give a handler that is neither \<^verbatim>\<open>null\<close> nor
  \<^verbatim>\<open>undefined\<close>), the call succeeds and the name given to the router primitive is the name
  without its first character.
\<close>

theorem addParameter_strips_first_character:
  assumes "param \<noteq> []" and "param \<notin> set (params rb) \<or> override"
    and "parameterHandler env param opts = Inr handler"
    and "handler \<noteq> Undefined" and "handler \<noteq> Null"
  shows "addParameter env rb param opts override =
           Done (rb\<lparr>router := router rb @ [Param (tl param) handler],
                    params := (if param \<in> set (params rb) then params rb else params rb @ [param])\<rparr>)"
  using assms by (cases param) (auto simp: addParameter_def Let_def)

theorem addParameter_strips_first_character_witness:
  "addParameter sample_env (RouterBuilder None) ''id'' (Fun 7) False =
     Done \<lparr>basePath = ''/'', router = [Param ''d'' (Fun 7)], params = [''id''], heap = []\<rparr>"
proof -
  have h: "parameterHandler sample_env ''id'' (Fun 7) = Inr (Fun 7)"
    by (simp add: parameterHandler_def)
  show ?thesis
    using addParameter_strips_first_character
            [of "''id''" "RouterBuilder None" False sample_env "Fun 7" "Fun 7", OF _ _ h]
    by (simp add: RouterBuilder_def)
qed

text \<open>
  What a further call for a name does, once a call of \<^verbatim>\<open>addParameter\<close> for it has returned:
  without \<^verbatim>\<open>override\<close> it changes nothing; with \<^verbatim>\<open>override\<close> and options that give a handler
  it calls \<^verbatim>\<open>router.param\<close> once more, after the registrations already made, and removes
  none of them.
\<close>

lemma addParameter_again:
  assumes "addParameter env rb param opts1 ov1 = Done rb1"
  shows "addParameter env rb1 param opts2 False = Done rb1
       \<and> (\<forall>h. parameterHandler env param opts2 = Inr h \<and> h \<noteq> Undefined \<and> h \<noteq> Null \<longrightarrow>
            addParameter env rb1 param opts2 True =
              Done (rb1\<lparr>router := router rb1 @ [Param (drop 1 param) h]\<rparr>))"
  using addParameter_caches [OF assms]
  by (auto simp: addParameter_def Let_def)

text \<open>
  Claim C8, evaluated on the code. The claim says that a second call for a name without
  \<^verbatim>\<open>override\<close> is a no-op, which the code does, and that a call with \<^verbatim>\<open>override\<close> replaces the
  handler registered before, as the comment in \<^verbatim>\<open>addParameter\<close> also says (a parameter is
  added once "unless we are overriding the existing parameter definition"). The code only
  skips its guard and calls \<^verbatim>\<open>router.param\<close> again: after \<^verbatim>\<open>addParameter (':id', f7)\<close> and
  \<^verbatim>\<open>addParameter (':id', f8, true)\<close> the router primitive has received the registration of
  the old handler and then that of the new one for the parameter \<^verbatim>\<open>id\<close>, and nothing has
  removed the former.
\<close>

theorem addParameter_override_keeps_old_registration:
  "(case addParameter sample_env (RouterBuilder None) '':id'' (Fun 7) False of
      Done rb1 \<Rightarrow> addParameter sample_env rb1 '':id'' (Fun 8) True
    | Threw e rb1 \<Rightarrow> Threw e rb1) =
   Done \<lparr>basePath = ''/'', router = [Param ''id'' (Fun 7), Param ''id'' (Fun 8)],
         params = ['':id''], heap = []\<rparr>"
  by (simp add: addParameter_def parameterHandler_def RouterBuilder_def)

section \<open>Properties of verb handlers\<close>

lemma push_Arr: "push h (Arr xs) v = Inr (Arr (xs @ [v]), h)"
  by (simp add: push_def)

lemma push_Ref: "push h (Ref a) v = Inr (Ref a, put h a (contents h a @ [v]))"
  by (simp add: push_def)

lemma contents_put: "contents (put h a xs) b = (if b = a then xs else contents h b)"
  by (induction h) (auto simp: contents_def)

text \<open>
  A view node whose hooks are arrays of their own: the pipeline is the before-hooks, the
  render unit of the view and the after-hooks, and the heap is untouched.
\<close>

lemma pipeline_view_node:
  assumes "get opts ''before'' = Arr bs" and "get opts ''after'' = Arr as"
    and "\<not> truthy (get opts ''action'')" and "truthy (get opts ''view'')"
  shows "pipeline env h verb path opts = Inr (Arr (bs @ [Render (get opts ''view'')] @ as), h)"
proof -
  from assms(1) have "opts \<noteq> Undefined" "opts \<noteq> Null" by auto
  moreover from assms(4) have "get opts ''view'' \<noteq> Undefined" by auto
  ultimately show ?thesis
    using assms by (simp add: pipeline_def push_def concat_after_def Let_def)
qed

text \<open>
  A node with an action whose method returns a middleware function, with hooks that are
  arrays of their own: the pipeline is the before-hooks, the function and the after-hooks.
\<close>

lemma pipeline_function_node:
  assumes "get opts ''before'' = Arr bs" and "get opts ''after'' = Arr as"
    and "truthy (get opts ''action'')"
    and "resolveController env (get opts ''action'') = Inr controller"
    and "MethodCall_invoke env controller [actionParams path opts] = Inr f"
    and "isFunction f"
  shows "pipeline env h verb path opts = Inr (Arr (bs @ [f] @ as), h)"
proof -
  from assms(1) have "opts \<noteq> Undefined" "opts \<noteq> Null" by auto
  moreover from assms(3) have "get opts ''action'' \<noteq> Undefined" by auto
  ultimately show ?thesis
    using assms by (simp add: pipeline_def actionUnits_def push_def concat_after_def Let_def)
qed

text \<open>
  A node with an action whose method returns a descriptor with a validation schema, a
  sanitizer and an execution function, with hooks that are arrays of their own: the
  pipeline is the before-hooks, the validation unit, the sanitization unit, the execution
  unit and the after-hooks.
\<close>

lemma pipeline_descriptor_node:
  assumes "get opts ''before'' = Arr bs" and "get opts ''after'' = Arr as"
    and "truthy (get opts ''action'')"
    and "resolveController env (get opts ''action'') = Inr controller"
    and "MethodCall_invoke env controller [actionParams path opts] = Inr (Obj r)"
    and "get (Obj r) ''validate'' = Obj schema"
    and "truthy (get (Obj r) ''sanitize'')" and "truthy (get (Obj r) ''execute'')"
  shows "pipeline env h verb path opts =
           Inr (Arr (bs @ [ValidateBySchema (Obj schema), Sanitizer (get (Obj r) ''sanitize''),
                           Executor (get (Obj r) ''execute'')] @ as), h)"
proof -
  from assms(1) have "opts \<noteq> Undefined" "opts \<noteq> Null" by auto
  moreover from assms(3) have "get opts ''action'' \<noteq> Undefined" by auto
  ultimately show ?thesis
    using assms
    by (simp add: pipeline_def actionUnits_def push_def concat_after_def Let_def
             del: get.simps)
qed

text \<open>
  With \<^verbatim>\<open>before\<close> hooks that are a shared array, the units are pushed into that array: the
  heap holds them afterwards.
\<close>

lemma pipeline_view_node_shared:
  assumes "get opts ''before'' = Ref a" and "\<not> truthy (get opts ''after'')"
    and "\<not> truthy (get opts ''action'')" and "truthy (get opts ''view'')"
  shows "pipeline env h verb path opts =
           Inr (Ref a, put h a (contents h a @ [Render (get opts ''view'')]))"
proof -
  from assms(1) have "opts \<noteq> Undefined" "opts \<noteq> Null" by auto
  moreover from assms(4) have "get opts ''view'' \<noteq> Undefined" by auto
  ultimately show ?thesis
    using assms by (simp add: pipeline_def push_def Let_def)
qed

text \<open>
  Claim C5, evaluated on the code. The claim says that the pipeline registered for a
  well-formed verb node holds its before-hooks, then its validation, sanitization and
  execution (or view-render) units, then its after-hooks. The code takes \<^verbatim>\<open>opts.before\<close>
  itself as the pipeline and pushes the units into it, so an array of hooks that the
  specification uses more than once collects the units of every node that has used it.
  With one array \<^verbatim>\<open>[f20]\<close> given as \<^verbatim>\<open>before\<close> to a \<^verbatim>\<open>get\<close> node that renders a view and to a
  \<^verbatim>\<open>post\<close> node with an action, the pipeline registered for \<^verbatim>\<open>post\<close> holds the render unit of
  the \<^verbatim>\<open>get\<close> node before its own unit. With the same array given as \<^verbatim>\<open>before\<close> and as \<^verbatim>\<open>after\<close> of
  one node, the after part of the registered pipeline holds the execution unit a second
  time.
\<close>

theorem shared_hooks_collect_units:
  "addSpecification 2 sample_env shared_hooks_builder shared_hooks_spec None =
     Some (Done \<lparr>basePath = ''/'',
                  router = [Route ''get'' ''/'' (Arr [Fun 20, Render (Str ''home.pug'')]),
                            Route ''post'' ''/'' (Arr [Fun 20, Render (Str ''home.pug''), Fun 10])],
                  params = [],
                  heap = [(1, [Fun 20, Render (Str ''home.pug''), Fun 10])]\<rparr>)
   \<and> defineVerbHandler sample_env shared_hooks_builder ''get'' ''/'' same_hooks_node =
     Done \<lparr>basePath = ''/'',
           router = [Route ''get'' ''/'' (Arr [Fun 20, Fun 10, Fun 20, Fun 10])],
           params = [],
           heap = [(1, [Fun 20, Fun 10])]\<rparr>"
  by code_simp

section \<open>Properties of resource expansion\<close>

text \<open>
  Claim C6. A resource node whose \<^verbatim>\<open>allow\<close> and \<^verbatim>\<open>deny\<close> are both set (arrays are truthy, also
  empty ones) makes the builder throw before anything is registered: the builder at the
  throw is the builder before the call. The error is the one about \<^verbatim>\<open>allow\<close> and \<^verbatim>\<open>deny\<close> when
  the controller, its actions and its resource id are found; it is the error of the
  earlier check that fails otherwise.
\<close>

theorem defineResource_allow_and_deny:
  assumes "truthy (get opts ''allow'')" and "truthy (get opts ''deny'')"
  shows "\<exists>e. processVerb self env rb ''resource'' path opts = Some (Threw e rb)
            \<and> resourceSpec env path opts = Inl e
            \<and> (e = AllowAndDeny path
               \<or> e = MissingControllerProperty path
               \<or> e = ControllerDoesNotExist (get opts ''controller'')
               \<or> e = MustDefineActions (get opts ''controller'')
               \<or> e = MustDefineResourceId (get opts ''controller''))"
  using assms
  by (auto simp: processVerb_def defineResource_def resourceSpec_def Let_def)

theorem defineResource_allow_and_deny_witness:
  "truthy (get (Obj [(''controller'', Str ''Message''), (''allow'', Arr [Str ''create'']),
                     (''deny'', Arr [Str ''count''])]) ''allow'')
   \<and> truthy (get (Obj [(''controller'', Str ''Message''), (''allow'', Arr [Str ''create'']),
                     (''deny'', Arr [Str ''count''])]) ''deny'')
   \<and> processVerb (addSpecification 3 sample_env) sample_env (RouterBuilder None) ''resource'' ''/messages''
        (Obj [(''controller'', Str ''Message''), (''allow'', Arr [Str ''create'']),
              (''deny'', Arr [Str ''count''])])
      = Some (Threw (AllowAndDeny ''/messages'') (RouterBuilder None))"
proof -
  let ?opts = "Obj [(''controller'', Str ''Message''), (''allow'', Arr [Str ''create'']),
                    (''deny'', Arr [Str ''count''])]"
  have a: "truthy (get ?opts ''allow'')" and d: "truthy (get ?opts ''deny'')" by simp_all
  have r: "resourceSpec sample_env ''/messages'' ?opts = Inl (AllowAndDeny ''/messages'')"
    by code_simp
  from defineResource_allow_and_deny [OF a d, of "addSpecification 3 sample_env" sample_env
         "RouterBuilder None" "''/messages''"] r a d
  show ?thesis by auto
qed

text \<open>
  A denied name that is not among the allowed names removes the last allowed name.
\<close>

lemma indexOf_absent: "Str d \<notin> set xs \<Longrightarrow> indexOf xs (Str d) = - 1"
  by (induction xs) (auto simp: Let_def elim: strict_equals.elims)

lemma splice1_last: "xs \<noteq> [] \<Longrightarrow> splice1 (- 1) xs = butlast xs"
  by (simp add: splice1_def Let_def butlast_conv_take nat_diff_distrib' Suc_leI)

lemma deny_absent_name:
  assumes "Str d \<notin> set xs" and "xs \<noteq> []"
  shows "removeDenied (Arr xs) [Str d] = Arr (butlast xs)"
  using assms by (simp add: indexOf_absent splice1_last)

text \<open>
  Claim C2, evaluated on the code. The claim says that exactly the names listed in \<^verbatim>\<open>deny\<close>
  are removed from the keys of \<^verbatim>\<open>actions\<close>, and that a name not mentioned in \<^verbatim>\<open>deny\<close> is never
  removed. For a denied name that is not a key of \<^verbatim>\<open>actions\<close>, \<^verbatim>\<open>indexOf\<close> returns \<^verbatim>\<open>-1\<close> and
  \<^verbatim>\<open>splice (-1, 1)\<close> removes the last allowed name: with the actions \<^verbatim>\<open>create\<close>, \<^verbatim>\<open>getAll\<close>, \<^verbatim>\<open>get\<close>,
  \<^verbatim>\<open>count\<close> and \<^verbatim>\<open>deny = ['remove']\<close>, the action \<^verbatim>\<open>count\<close> is no longer allowed, and its route
  \<^verbatim>\<open>/count\<close> is missing from the expanded specification.
\<close>

theorem deny_of_unknown_name_removes_last_action:
  "allowedActions sample_env (get (get sample_registry ''Message'') ''actions'')
      Undefined (Arr [Str ''remove''])
     = Arr [Str ''create'', Str ''getAll'', Str ''get'']
   \<and> resourceSpec sample_env ''/messages''
        (Obj [(''controller'', Str ''Message''), (''deny'', Arr [Str ''remove''])])
     = Inr (Obj [(''post'', Obj [(''action'', Str ''Message@create'')]),
                 (''get'', Obj [(''action'', Str ''Message@getAll'')]),
                 (''/:messageId'', Obj [(''get'', Obj [(''action'', Str ''Message@get'')])])])"
  by code_simp

lemma map_of_assign_same: "map_of (assign kvs k v) k = Some v"
  by (induction kvs) auto


lemma get_plain:
  assumes "list_all (\<lambda>kv. isPlainObject (snd kv)) kvs"
  shows "get (Obj kvs) k = Undefined \<or> (\<exists>sub. get (Obj kvs) k = Obj sub)"
proof (cases "map_of kvs k")
  case None then show ?thesis by simp
next
  case (Some v)
  then have "(k, v) \<in> set kvs" by (rule map_of_SomeD)
  with assms have "isPlainObject v" by (auto simp: list_all_iff)
  then obtain sub where "v = Obj sub" by (cases v) auto
  with Some show ?thesis by simp
qed

text \<open>
  Claim C1, as amended. The prefix that sends an action definition to the single-resource
  specification is the constant \<^verbatim>\<open>'/:rcId'\<close>, whatever the resource id of the controller is.
  A definition whose path begins with \<^verbatim>\<open>'/:rcId'\<close> is bound, under its verb, into the
  single-resource specification: directly when nothing follows the prefix, and otherwise
  in the object stored there under the remainder of the path; the collective
  specification is left as it is. A definition with any other non-empty path is bound,
  under its verb, in the object stored in the collective specification under that path;
  the single-resource specification is left as it is. (The single-resource specification
  is an object whose properties are objects: it is built from the empty object by these
  steps.)
\<close>

theorem processAction_placeholder_prefix:
  assumes "get action ''path'' = Str p" and "p \<noteq> []"
    and "list_all (\<lambda>kv. isPlainObject (snd kv)) tkvs"
  shows "\<exists>spec' single'.
           processAction env controllerName options action (Obj skvs, Obj tkvs) = Inr (spec', single')
         \<and> (if startsWith p SINGLE_RESOURCE_BASE_PATH then
              spec' = Obj skvs
              \<and> (if drop (length SINGLE_RESOURCE_BASE_PATH) p = []
                  then get single' (to_str env (get action ''verb''))
                     = makeAction env controllerName (get action ''method'') options
                  else get (get single' (drop (length SINGLE_RESOURCE_BASE_PATH) p))
                           (to_str env (get action ''verb''))
                     = makeAction env controllerName (get action ''method'') options)
            else
              single' = Obj tkvs
              \<and> get (get spec' p) (to_str env (get action ''verb''))
                 = makeAction env controllerName (get action ''method'') options)"
proof -
  from assms(1) have nn: "action \<noteq> Undefined" "action \<noteq> Null" by auto
  show ?thesis
  proof (cases "startsWith p SINGLE_RESOURCE_BASE_PATH")
    case False
    with assms(1,2) nn show ?thesis
      by (simp add: processAction_def Let_def map_of_assign_same)
  next
    case True
    show ?thesis
    proof (cases "drop (length SINGLE_RESOURCE_BASE_PATH) p = []")
      case e: True
      with True assms(1,2) nn show ?thesis
        by (simp add: processAction_def Let_def map_of_assign_same)
    next
      case ne: False
      from get_plain [OF assms(3), of "drop (length SINGLE_RESOURCE_BASE_PATH) p"] show ?thesis
      proof
        assume u: "get (Obj tkvs) (drop (length SINGLE_RESOURCE_BASE_PATH) p) = Undefined"
        with True ne assms(1,2) nn show ?thesis
          by (simp add: processAction_def Let_def map_of_assign_same)
      next
        assume "\<exists>sub. get (Obj tkvs) (drop (length SINGLE_RESOURCE_BASE_PATH) p) = Obj sub"
        then obtain sub where "get (Obj tkvs) (drop (length SINGLE_RESOURCE_BASE_PATH) p) = Obj sub" ..
        with True ne assms(1,2) nn show ?thesis
          by (simp add: processAction_def Let_def map_of_assign_same)
      qed
    qed
  qed
qed

theorem processAction_placeholder_prefix_witness:
  "processAction sample_env (Str ''User'') Undefined
      (Obj [(''verb'', Str ''put''), (''path'', Str ''/:rcId/avatar''), (''method'', Str ''setAvatar'')])
      (Obj [], Obj [(''get'', Obj [(''action'', Str ''User@get'')])])
     = Inr (Obj [],
            Obj [(''get'', Obj [(''action'', Str ''User@get'')]),
                 (''/avatar'', Obj [(''put'', Obj [(''action'', Str ''User@setAvatar'')])])])
   \<and> processAction sample_env (Str ''User'') Undefined
      (Obj [(''verb'', Str ''get''), (''path'', Str ''/:id''), (''method'', Str ''get'')])
      (Obj [], Obj [])
     = Inr (Obj [(''/:id'', Obj [(''get'', Obj [(''action'', Str ''User@get'')])])], Obj [])"
proof -
  let ?a1 = "Obj [(''verb'', Str ''put''), (''path'', Str ''/:rcId/avatar''), (''method'', Str ''setAvatar'')]"
  let ?a2 = "Obj [(''verb'', Str ''get''), (''path'', Str ''/:id''), (''method'', Str ''get'')]"
  let ?t1 = "[(''get'', Obj [(''action'', Str ''User@get'')])]"
  have p1: "get ?a1 ''path'' = Str ''/:rcId/avatar''" and n1: "''/:rcId/avatar'' \<noteq> []"
    and s1: "list_all (\<lambda>kv. isPlainObject (snd kv)) ?t1" by simp_all
  have p2: "get ?a2 ''path'' = Str ''/:id''" and n2: "''/:id'' \<noteq> []"
    and s2: "list_all (\<lambda>kv. isPlainObject (snd kv)) []" by simp_all
  have e1: "processAction sample_env (Str ''User'') Undefined ?a1 (Obj [], Obj ?t1)
     = Inr (Obj [],
            Obj [(''get'', Obj [(''action'', Str ''User@get'')]),
                 (''/avatar'', Obj [(''put'', Obj [(''action'', Str ''User@setAvatar'')])])])"
    by code_simp
  have e2: "processAction sample_env (Str ''User'') Undefined ?a2 (Obj [], Obj [])
     = Inr (Obj [(''/:id'', Obj [(''get'', Obj [(''action'', Str ''User@get'')])])], Obj [])"
    by code_simp
  from processAction_placeholder_prefix [OF p1 n1 s1, of sample_env "Str ''User''" Undefined "[]"]
       processAction_placeholder_prefix [OF p2 n2 s2, of sample_env "Str ''User''" Undefined "[]"]
       e1 e2
  show ?thesis by simp
qed

text \<open>
  The claim as stated takes the prefix to be \<^verbatim>\<open>'/:'\<close> followed by the resource id of the
  controller. For the controller \<^verbatim>\<open>User\<close>, whose resource id is \<^verbatim>\<open>id\<close>, the definition with the
  path \<^verbatim>\<open>'/:id'\<close> is not bound into the single-resource specification: the step binds it in
  the collective specification, and the single-resource specification of the expanded
  resource is empty.
\<close>

theorem resource_id_prefix_is_not_the_rule:
  "get (get sample_registry ''User'') ''resourceId'' = Str ''id''
   \<and> get (get sample_registry ''User'') ''actions''
      = Obj [(''get'', Obj [(''verb'', Str ''get''), (''path'', Str ''/:id''), (''method'', Str ''get'')])]
   \<and> processAction sample_env (Str ''User'') Undefined
        (Obj [(''verb'', Str ''get''), (''path'', Str ''/:id''), (''method'', Str ''get'')])
        (Obj [], Obj [])
      = Inr (Obj [(''/:id'', Obj [(''get'', Obj [(''action'', Str ''User@get'')])])], Obj [])
   \<and> resourceSpec sample_env ''/users'' (Obj [(''controller'', Str ''User'')])
      = Inr (Obj [(''/:id'', Obj [])])"
  by code_simp

section \<open>Registrations made for an expanded specification\<close>












lemma slash_not_use: "slash key \<Longrightarrow> key \<noteq> ''use''"
  by (cases key) (simp_all add: slash_def)













section \<open>The specification assembled by resource expansion\<close>











































end
